theory Spec2Isabelle
  imports Complex_Main
begin

section \<open>JavaScript values used by the two components\<close>

text \<open>
  The \<open>current\<close> property and the \<open>index\<close> of the map callback are modelled as \<open>int\<close>:
  the spec types \<open>current\<close> as an integer, and on integers of this size the comparisons
  and \<open>+ 1\<close> / \<open>- 1\<close> of the source are exact. The argument of \<open>goToStep\<close> comes from
  the host as an arbitrary number, so it is a \<open>js_number\<close> (below).

  The only exception the source can raise by itself is the \<open>TypeError\<close> of reading a
  property of \<open>undefined\<close>.
\<close>

datatype js_error = TypeError

text \<open>
  \<open>React.ReactNode\<close>: \<open>undefined\<close>, \<open>null\<close>, a boolean, a number, a string, or an
  element. The source only tests a node for truthiness and passes it on.
\<close>

datatype ReactNode =
  NUndefined | NNull | NBool bool | NNumber int | NString string | NElement string

fun truthy_node :: "ReactNode \<Rightarrow> bool" where
  "truthy_node NUndefined = False"
| "truthy_node NNull = False"
| "truthy_node (NBool b) = b"
| "truthy_node (NNumber n) = (n \<noteq> 0)"
| "truthy_node (NString s) = (s \<noteq> [])"
| "truthy_node (NElement e) = True"

text \<open>An optional boolean property: \<open>undefined\<close> and \<open>false\<close> are falsy.\<close>

fun truthy_flag :: "bool option \<Rightarrow> bool" where
  "truthy_flag None = False"
| "truthy_flag (Some b) = b"

text \<open>An optional string property: \<open>undefined\<close> and the empty string are falsy.\<close>

fun truthy_str :: "string option \<Rightarrow> bool" where
  "truthy_str None = False"
| "truthy_str (Some s) = (s \<noteq> [])"

text \<open>A destructuring default \<open>{x = d}\<close>: the default is taken when the property is \<open>undefined\<close>.\<close>

fun default_to :: "'a \<Rightarrow> 'a option \<Rightarrow> 'a" where
  "default_to d None = d"
| "default_to d (Some x) = x"

text \<open>\<open>xs[i]\<close>: \<open>undefined\<close> (here \<open>None\<close>) outside \<open>0 \<le> i < xs.length\<close>.\<close>

definition index_js :: "'a list \<Rightarrow> int \<Rightarrow> 'a option" where
  "index_js xs i = (if 0 \<le> i \<and> i < int (length xs) then Some (xs ! nat i) else None)"

text \<open>
  A number as the host can pass it: a finite value, \<open>NaN\<close>, or an infinity. Every finite
  double is a real, and the comparisons of two doubles are those of the reals; a
  comparison with \<open>NaN\<close> is false.
\<close>

datatype js_number = Num real | NaN | Infinity | NegInfinity

definition js_lt :: "js_number \<Rightarrow> js_number \<Rightarrow> bool" where
  "js_lt x y =
     (case (x, y) of
        (Num a, Num b) \<Rightarrow> a < b
      | (Num a, Infinity) \<Rightarrow> True
      | (NegInfinity, Num b) \<Rightarrow> True
      | (NegInfinity, Infinity) \<Rightarrow> True
      | _ \<Rightarrow> False)"

definition js_ge :: "js_number \<Rightarrow> js_number \<Rightarrow> bool" where
  "js_ge x y =
     (case (x, y) of
        (Num a, Num b) \<Rightarrow> a \<ge> b
      | (Num a, NegInfinity) \<Rightarrow> True
      | (Infinity, Num b) \<Rightarrow> True
      | (Infinity, Infinity) \<Rightarrow> True
      | (Infinity, NegInfinity) \<Rightarrow> True
      | (NegInfinity, NegInfinity) \<Rightarrow> True
      | _ \<Rightarrow> False)"

text \<open>
  The integer a number is, when it is one. \<open>xs[x]\<close> for any other number \<open>x\<close> reads a
  property the array does not have, and is \<open>undefined\<close>.
\<close>

fun to_int :: "js_number \<Rightarrow> int option" where
  "to_int (Num r) = (if of_int \<lfloor>r\<rfloor> = r then Some \<lfloor>r\<rfloor> else None)"
| "to_int NaN = None"
| "to_int Infinity = None"
| "to_int NegInfinity = None"

definition index_num :: "'a list \<Rightarrow> js_number \<Rightarrow> 'a option" where
  "index_num xs x = (case to_int x of None \<Rightarrow> None | Some i \<Rightarrow> index_js xs i)"

text \<open>\<open>x.f\<close> raises on \<open>undefined\<close>; \<open>x?.f\<close> yields \<open>undefined\<close> instead.\<close>

fun member :: "'a option \<Rightarrow> ('a \<Rightarrow> 'b) \<Rightarrow> js_error + 'b" where
  "member None f = Inl TypeError"
| "member (Some x) f = Inr (f x)"

fun opt_member :: "'a option \<Rightarrow> ('a \<Rightarrow> 'b) \<Rightarrow> js_error + 'b option" where
  "opt_member None f = Inr None"
| "opt_member (Some x) f = Inr (Some (f x))"

text \<open>
  \<open>clsx(...)\<close>: string arguments and the keys of object arguments whose value is truthy,
  in argument order; falsy arguments are skipped. The class attribute is these tokens
  joined by single spaces; the model keeps the token list.
\<close>

datatype clsx_arg = Cls string | ClsObj "(string \<times> bool) list" | ClsOpt "string option"

fun clsx_tokens :: "clsx_arg \<Rightarrow> string list" where
  "clsx_tokens (Cls s) = (if s = [] then [] else [s])"
| "clsx_tokens (ClsObj kvs) = map fst (filter snd kvs)"
| "clsx_tokens (ClsOpt None) = []"
| "clsx_tokens (ClsOpt (Some s)) = (if s = [] then [] else [s])"

definition clsx :: "clsx_arg list \<Rightarrow> string list" where
  "clsx args = concat (map clsx_tokens args)"


section \<open>DynStepper: data\<close>

datatype StepStatus = Pending | Current | Complete | Error

fun StepStatus_str :: "StepStatus \<Rightarrow> string" where
  "StepStatus_str Pending = ''pending''"
| "StepStatus_str Current = ''current''"
| "StepStatus_str Complete = ''complete''"
| "StepStatus_str Error = ''error''"

record StepData =
  key :: string
  title :: string
  description :: "string option"
  status :: "StepStatus option"
  disabled :: "bool option"
  icon :: ReactNode

datatype Orientation = Horizontal | Vertical

fun Orientation_str :: "Orientation \<Rightarrow> string" where
  "Orientation_str Horizontal = ''horizontal''"
| "Orientation_str Vertical = ''vertical''"

text \<open>
  \<open>DynStepperProps\<close>. A host function is an opaque reference of type \<open>'f\<close>; what a
  handler does to the host is the list of calls it makes. \<open>ComponentSize\<close> comes from the
  design-token package and is only interpolated into a class name, so it is a string here.
  The interface declares no further properties, so the rest spread \<open>...props\<close> is empty.
\<close>

record 'f DynStepperProps =
  p_current :: int
  p_steps :: "StepData list"
  p_orientation :: "Orientation option"
  p_size :: "string option"
  p_onChange :: "'f option"
  p_showNumbers :: "bool option"
  p_showConnectors :: "bool option"
  p_clickable :: "bool option"
  p_className :: "string option"
  p_data_testid :: "string option"

text \<open>One call \<open>onChange(stepIndex, stepData)\<close> of the host function \<open>f\<close>.\<close>

type_synonym 'f change_call = "'f \<times> int \<times> StepData"

text \<open>\<open>onChange?.(stepIndex, stepData)\<close>: nothing happens when no callback was supplied.\<close>

fun invoke :: "'f option \<Rightarrow> int \<Rightarrow> StepData \<Rightarrow> 'f change_call list" where
  "invoke None stepIndex stepData = []"
| "invoke (Some f) stepIndex stepData = [(f, stepIndex, stepData)]"


section \<open>DynStepper: the callbacks\<close>

text \<open>
  A closure is the variables its function literal captures; applying it runs the body of
  the literal on them.
\<close>

datatype 'f click_closure = ClickClosure bool int "'f option"

fun handleStepClick :: "'f click_closure \<Rightarrow> int \<Rightarrow> StepData \<Rightarrow> 'f change_call list" where
  "handleStepClick (ClickClosure clickable current onChange) stepIndex stepData =
     (if \<not> clickable \<or> truthy_flag (disabled stepData) then []
      else if stepIndex \<le> current then invoke onChange stepIndex stepData
      else [])"

datatype 'f goto_closure = GotoClosure "StepData list" "'f option"

text \<open>
  \<open>stepIndex\<close> is whatever number the host passes. Reading \<open>.disabled\<close> of an element
  that is not there is the \<open>TypeError\<close> branch: it is taken by a number inside the range
  that is not an integer. Where the read succeeds, \<open>stepIndex\<close> is an integer inside the
  range, and the second read of \<open>steps[stepIndex]\<close>, the argument of the callback, gives
  the same element; the \<open>None\<close> case there is never reached, the read before it has
  raised already.
\<close>

fun goToStep :: "'f goto_closure \<Rightarrow> js_number \<Rightarrow> js_error + 'f change_call list" where
  "goToStep (GotoClosure steps onChange) stepIndex =
     (if js_ge stepIndex (Num 0) \<and> js_lt stepIndex (Num (real (length steps))) then
        (case member (index_num steps stepIndex) disabled of
           Inl e \<Rightarrow> Inl e
         | Inr d \<Rightarrow>
             if \<not> truthy_flag d then
               (case to_int stepIndex of
                  None \<Rightarrow> Inl TypeError
                | Some i \<Rightarrow> Inr (invoke onChange i (steps ! nat i)))
             else Inr [])
      else Inr [])"

datatype 'f next_closure = NextClosure int "StepData list" "'f goto_closure"

fun nextStep :: "'f next_closure \<Rightarrow> js_error + 'f change_call list" where
  "nextStep (NextClosure current steps goToStep_c) =
     (if current < int (length steps) - 1 then goToStep goToStep_c (Num (of_int (current + 1)))
      else Inr [])"

datatype 'f prev_closure = PrevClosure int "'f goto_closure"

fun previousStep :: "'f prev_closure \<Rightarrow> js_error + 'f change_call list" where
  "previousStep (PrevClosure current goToStep_c) =
     (if current > 0 then goToStep goToStep_c (Num (of_int (current - 1)))
      else Inr [])"

text \<open>The object handed to the host through the ref.\<close>

record 'f DynStepperRef =
  ref_goToStep :: "'f goto_closure"
  ref_nextStep :: "'f next_closure"
  ref_previousStep :: "'f prev_closure"

text \<open>
  \<open>useCallback(fn, deps)\<close>: the cell of the previous render is kept, and its function
  returned, when its dependencies equal the new ones; otherwise the new function is
  stored and returned. Dependencies that are references (the step array, the host
  callback, another closure) are compared by value here, where React compares references.
\<close>

definition useCallback :: "('d \<times> 'c) option \<Rightarrow> 'c \<Rightarrow> 'd \<Rightarrow> 'c \<times> ('d \<times> 'c) option" where
  "useCallback cell fn deps =
     (case cell of
        None \<Rightarrow> (fn, Some (deps, fn))
      | Some (deps0, fn0) \<Rightarrow> if deps0 = deps then (fn0, cell) else (fn, Some (deps, fn)))"

text \<open>
  What React retains for one mounted \<open>DynStepper\<close> between renders: the four
  \<open>useCallback\<close> cells and the imperative handle with its dependencies.
\<close>

record 'f hooks =
  hook_handleStepClick :: "((bool \<times> int \<times> 'f option) \<times> 'f click_closure) option"
  hook_goToStep :: "((StepData list \<times> 'f option) \<times> 'f goto_closure) option"
  hook_nextStep :: "((int \<times> int \<times> 'f goto_closure) \<times> 'f next_closure) option"
  hook_previousStep :: "((int \<times> 'f goto_closure) \<times> 'f prev_closure) option"
  hook_handle ::
    "(('f goto_closure \<times> 'f next_closure \<times> 'f prev_closure) \<times> 'f DynStepperRef) option"

definition mount_hooks :: "'f hooks" where
  "mount_hooks = \<lparr>hook_handleStepClick = None, hook_goToStep = None, hook_nextStep = None,
     hook_previousStep = None, hook_handle = None\<rparr>"

text \<open>
  \<open>useImperativeHandle(ref, create, deps)\<close>: \<open>ref.current\<close> keeps the object of the
  previous render while the dependencies are the same, and receives a new one otherwise.
\<close>

definition useImperativeHandle :: "('d \<times> 'r) option \<Rightarrow> 'r \<Rightarrow> 'd \<Rightarrow> ('d \<times> 'r) option" where
  "useImperativeHandle cell obj deps =
     (case cell of
        None \<Rightarrow> Some (deps, obj)
      | Some (deps0, obj0) \<Rightarrow> if deps0 = deps then cell else Some (deps, obj))"

text \<open>\<open>ref.current\<close> as the host sees it.\<close>

definition ref_current :: "'f hooks \<Rightarrow> 'f DynStepperRef option" where
  "ref_current hs = map_option snd (hook_handle hs)"


section \<open>DynStepper: rendering\<close>

definition getStepStatus :: "int \<Rightarrow> int \<Rightarrow> StepData \<Rightarrow> StepStatus" where
  "getStepStatus current stepIndex step =
     (case status step of
        Some s \<Rightarrow> s
      | None \<Rightarrow>
          if stepIndex < current then Complete
          else if stepIndex = current then Current
          else Pending)"

text \<open>The children of \<open>dyn-stepper__indicator\<close>; \<open>DynIcon\<close> is the external icon renderer.\<close>

datatype indicator = DynIcon string string | CustomIcon ReactNode | NumberSpan int | DotDiv

text \<open>
  The \<open>dyn-stepper__step\<close> element. \<open>el_status\<close> is the constant \<open>status\<close> of the map
  callback, which selects the class modifier and the indicator. A handler that was
  installed is kept as the calls it makes when it runs; the key handler also reports
  whether it called \<open>preventDefault\<close>.
\<close>

record 'f step_el =
  el_status :: StepStatus
  el_className :: "string list"
  el_onClick :: "'f change_call list option"
  el_role :: "string option"
  el_tabIndex :: "int option"
  el_onKeyDown :: "(string \<Rightarrow> bool \<times> 'f change_call list) option"
  el_indicator :: indicator
  el_title :: string
  el_description :: "string option"

text \<open>One \<open>React.Fragment\<close> of the track: the step and, when rendered, its connector.\<close>

record 'f fragment =
  frag_key :: string
  frag_step :: "'f step_el"
  frag_connector :: "string list option"

definition render_step ::
  "'f click_closure \<Rightarrow> int \<Rightarrow> StepData list \<Rightarrow> bool \<Rightarrow> bool \<Rightarrow> bool \<Rightarrow>
   StepData \<Rightarrow> int \<Rightarrow> 'f fragment" where
  "render_step handleStepClick_c current steps clickable showNumbers showConnectors step index =
     (let status = getStepStatus current index step;
          isClickable = (clickable \<and> \<not> truthy_flag (disabled step) \<and> index \<le> current)
      in \<lparr>frag_key = key step,
          frag_step = \<lparr>
            el_status = status,
            el_className = clsx [
              Cls ''dyn-stepper__step'',
              Cls (''dyn-stepper__step--'' @ StepStatus_str status),
              ClsObj [(''dyn-stepper__step--clickable'', isClickable),
                      (''dyn-stepper__step--disabled'', truthy_flag (disabled step))]],
            el_onClick =
              (if isClickable then Some (handleStepClick handleStepClick_c index step) else None),
            el_role = (if isClickable then Some ''button'' else None),
            el_tabIndex = (if isClickable then Some 0 else None),
            el_onKeyDown =
              (if isClickable then
                 Some (\<lambda>k. if k = ''Enter'' \<or> k = '' ''
                           then (True, handleStepClick handleStepClick_c index step)
                           else (False, []))
               else None),
            el_indicator =
              (if status = Error then DynIcon ''x'' ''sm''
               else if status = Complete then DynIcon ''check'' ''sm''
               else if truthy_node (icon step) then CustomIcon (icon step)
               else if showNumbers then NumberSpan (index + 1)
               else DotDiv),
            el_title = title step,
            el_description = (if truthy_str (description step) then description step else None)\<rparr>,
          frag_connector =
            (if showConnectors \<and> index < int (length steps) - 1 then
               Some (clsx [
                 Cls ''dyn-stepper__connector'',
                 ClsObj [(''dyn-stepper__connector--completed'', index < current)]])
             else None)\<rparr>)"

record 'f stepper_view =
  v_className :: "string list"
  v_data_testid :: "string option"
  v_role :: string
  v_aria_valuemin :: int
  v_aria_valuemax :: int
  v_aria_valuenow :: int
  v_aria_valuetext :: "string option"
  v_track :: "'f fragment list"

text \<open>
  One render of the component body: the hooks in call order, then the markup. The result
  is the markup and what React retains for the next render.
\<close>

definition DynStepper ::
  "'f hooks \<Rightarrow> 'f DynStepperProps \<Rightarrow> js_error + ('f stepper_view \<times> 'f hooks)" where
  "DynStepper hs props =
     (let current = p_current props;
          steps = p_steps props;
          orientation = default_to Horizontal (p_orientation props);
          size = default_to ''md'' (p_size props);
          onChange = p_onChange props;
          showNumbers = default_to True (p_showNumbers props);
          showConnectors = default_to True (p_showConnectors props);
          clickable = default_to True (p_clickable props);
          className = p_className props;
          dataTestId = p_data_testid props;
          (handleStepClick_c, cell1) =
            useCallback (hook_handleStepClick hs)
              (ClickClosure clickable current onChange) (clickable, current, onChange);
          (goToStep_c, cell2) =
            useCallback (hook_goToStep hs) (GotoClosure steps onChange) (steps, onChange);
          (nextStep_c, cell3) =
            useCallback (hook_nextStep hs)
              (NextClosure current steps goToStep_c) (current, int (length steps), goToStep_c);
          (previousStep_c, cell4) =
            useCallback (hook_previousStep hs)
              (PrevClosure current goToStep_c) (current, goToStep_c);
          cell5 =
            useImperativeHandle (hook_handle hs)
              \<lparr>ref_goToStep = goToStep_c, ref_nextStep = nextStep_c,
               ref_previousStep = previousStep_c\<rparr>
              (goToStep_c, nextStep_c, previousStep_c);
          containerClasses = clsx [
            Cls ''dyn-stepper'',
            Cls (''dyn-stepper--'' @ Orientation_str orientation),
            Cls (''dyn-stepper--size-'' @ size),
            ClsObj [(''dyn-stepper--clickable'', clickable),
                    (''dyn-stepper--with-connectors'', showConnectors)],
            ClsOpt className]
      in case opt_member (index_js steps current) title of
           Inl e \<Rightarrow> Inl e
         | Inr valuetext \<Rightarrow>
             Inr (\<lparr>v_className = containerClasses,
                   v_data_testid = dataTestId,
                   v_role = ''progressbar'',
                   v_aria_valuemin = 0,
                   v_aria_valuemax = int (length steps) - 1,
                   v_aria_valuenow = current,
                   v_aria_valuetext = valuetext,
                   v_track =
                     map (\<lambda>(index, step).
                            render_step handleStepClick_c current steps clickable showNumbers
                              showConnectors step (int index))
                         (enumerate 0 steps)\<rparr>,
                  \<lparr>hook_handleStepClick = cell1, hook_goToStep = cell2, hook_nextStep = cell3,
                   hook_previousStep = cell4, hook_handle = cell5\<rparr>))"

text \<open>
  The hook states a mounted component can be in: the empty one of the first render, and
  whatever a render leaves behind.
\<close>

inductive mounted :: "'f hooks \<Rightarrow> bool" where
  first_render: "mounted mount_hooks"
| next_render: "mounted hs \<Longrightarrow> DynStepper hs props = Inr (v, hs') \<Longrightarrow> mounted hs'"

text \<open>
  Dispatching an event to a step element runs the handler installed for it, if any.
\<close>

definition click :: "'f step_el \<Rightarrow> 'f change_call list" where
  "click el = (case el_onClick el of None \<Rightarrow> [] | Some calls \<Rightarrow> calls)"

definition keyDown :: "string \<Rightarrow> 'f step_el \<Rightarrow> bool \<times> 'f change_call list" where
  "keyDown k el = (case el_onKeyDown el of None \<Rightarrow> (False, []) | Some h \<Rightarrow> h k)"

text \<open>
  The output attributes of a render: the markup without its event handlers.
\<close>

definition step_attrs ::
  "'f fragment \<Rightarrow>
   string \<times> StepStatus \<times> string list \<times> string option \<times> int option \<times> indicator \<times> string \<times>
   string option \<times> string list option" where
  "step_attrs fr =
     (frag_key fr, el_status (frag_step fr), el_className (frag_step fr), el_role (frag_step fr),
      el_tabIndex (frag_step fr), el_indicator (frag_step fr), el_title (frag_step fr),
      el_description (frag_step fr), frag_connector fr)"

definition view_attrs :: "'f stepper_view \<Rightarrow> _" where
  "view_attrs v =
     (v_className v, v_data_testid v, v_role v, v_aria_valuemin v, v_aria_valuemax v,
      v_aria_valuenow v, v_aria_valuetext v, map step_attrs (v_track v))"


section \<open>DynMenuItem\<close>

text \<open>
  \<open>DynMenuItemProps\<close>; the interface declares no further properties, so the rest spread is
  empty. The component calls no hook: a render is a function of the properties.
\<close>

record 'f DynMenuItemProps =
  m_children :: ReactNode
  m_value :: "string option"
  m_onClick :: "'f option"
  m_disabled :: "bool option"
  m_selected :: "bool option"
  m_icon :: ReactNode
  m_description :: "string option"
  m_shortcut :: "string option"
  m_divider :: "bool option"
  m_className :: "string option"
  m_data_testid :: "string option"

text \<open>One call \<open>onClick(value)\<close> of the host function \<open>f\<close>.\<close>

type_synonym 'f click_call = "'f \<times> string option"

text \<open>\<open>g(value)\<close>: calling \<open>undefined\<close> raises.\<close>

fun call_fn :: "'f option \<Rightarrow> string option \<Rightarrow> js_error + 'f click_call list" where
  "call_fn None v = Inl TypeError"
| "call_fn (Some f) v = Inr [(f, v)]"

definition handleClick :: "'f DynMenuItemProps \<Rightarrow> js_error + 'f click_call list" where
  "handleClick props =
     (let disabled = default_to False (m_disabled props);
          onClick = m_onClick props;
          value = m_value props
      in if \<not> disabled \<and> onClick \<noteq> None then call_fn onClick value else Inr [])"

definition handleKeyDown ::
  "'f DynMenuItemProps \<Rightarrow> string \<Rightarrow> bool \<times> (js_error + 'f click_call list)" where
  "handleKeyDown props k =
     (if k = ''Enter'' \<or> k = '' '' then (True, handleClick props) else (False, Inr []))"

record divider_el =
  d_className :: "string list"
  d_role :: string
  d_data_testid :: "string option"

text \<open>
  \<open>{icon && (...)}\<close> renders the wrapping span when the icon is truthy and hands React the
  falsy value itself otherwise.
\<close>

datatype icon_slot = IconSpan ReactNode | Bare ReactNode

record 'f button_el =
  b_type :: string
  b_className :: "string list"
  b_role :: string
  b_disabled :: bool
  b_aria_selected :: bool
  b_data_value :: "string option"
  b_data_testid :: "string option"
  b_onClick :: "js_error + 'f click_call list"
  b_onKeyDown :: "string \<Rightarrow> bool \<times> (js_error + 'f click_call list)"
  b_icon :: icon_slot
  b_label :: ReactNode
  b_description :: "string option"
  b_shortcut :: "string option"

datatype 'f menu_el = DividerDiv divider_el | Button "'f button_el"

definition DynMenuItem :: "'f DynMenuItemProps \<Rightarrow> 'f menu_el" where
  "DynMenuItem props =
     (let children = m_children props;
          value = m_value props;
          disabled = default_to False (m_disabled props);
          selected = default_to False (m_selected props);
          icon = m_icon props;
          description = m_description props;
          shortcut = m_shortcut props;
          divider = default_to False (m_divider props);
          className = m_className props;
          dataTestId = m_data_testid props
      in if divider then
           DividerDiv \<lparr>d_className = clsx [Cls ''dyn-menu-item-divider'', ClsOpt className],
                       d_role = ''separator'',
                       d_data_testid = dataTestId\<rparr>
         else
           Button \<lparr>
             b_type = ''button'',
             b_className = clsx [
               Cls ''dyn-menu-item'',
               ClsObj [(''dyn-menu-item--selected'', selected),
                       (''dyn-menu-item--disabled'', disabled),
                       (''dyn-menu-item--with-icon'', truthy_node icon),
                       (''dyn-menu-item--with-description'', truthy_str description)],
               ClsOpt className],
             b_role = ''menuitem'',
             b_disabled = disabled,
             b_aria_selected = selected,
             b_data_value = value,
             b_data_testid = dataTestId,
             b_onClick = handleClick props,
             b_onKeyDown = handleKeyDown props,
             b_icon = (if truthy_node icon then IconSpan icon else Bare icon),
             b_label = children,
             b_description = (if truthy_str description then description else None),
             b_shortcut = (if truthy_str shortcut then shortcut else None)\<rparr>)"

text \<open>
  Dispatching an event to the rendered element runs the handler installed for it; the
  separator has none. (A browser delivers no click to a disabled button at all; the
  model runs the handler even then.)
\<close>

definition menu_click :: "'f menu_el \<Rightarrow> js_error + 'f click_call list" where
  "menu_click el = (case el of DividerDiv d \<Rightarrow> Inr [] | Button b \<Rightarrow> b_onClick b)"

definition menu_keyDown :: "string \<Rightarrow> 'f menu_el \<Rightarrow> bool \<times> (js_error + 'f click_call list)" where
  "menu_keyDown k el = (case el of DividerDiv d \<Rightarrow> (False, Inr []) | Button b \<Rightarrow> b_onKeyDown b k)"


section \<open>The closures a render hands out, and the invariant of the retained cells\<close>

text \<open>
  The four callbacks as the render body sees them after its \<open>useCallback\<close> calls: either
  the literal of this render or the one a cell retained.
\<close>

definition click_c :: "'f hooks \<Rightarrow> 'f DynStepperProps \<Rightarrow> 'f click_closure" where
  "click_c hs props = fst (useCallback (hook_handleStepClick hs)
      (ClickClosure (default_to True (p_clickable props)) (p_current props) (p_onChange props))
      (default_to True (p_clickable props), p_current props, p_onChange props))"

definition goto_c :: "'f hooks \<Rightarrow> 'f DynStepperProps \<Rightarrow> 'f goto_closure" where
  "goto_c hs props = fst (useCallback (hook_goToStep hs)
      (GotoClosure (p_steps props) (p_onChange props)) (p_steps props, p_onChange props))"

definition next_c :: "'f hooks \<Rightarrow> 'f DynStepperProps \<Rightarrow> 'f next_closure" where
  "next_c hs props = fst (useCallback (hook_nextStep hs)
      (NextClosure (p_current props) (p_steps props) (goto_c hs props))
      (p_current props, int (length (p_steps props)), goto_c hs props))"

definition prev_c :: "'f hooks \<Rightarrow> 'f DynStepperProps \<Rightarrow> 'f prev_closure" where
  "prev_c hs props = fst (useCallback (hook_previousStep hs)
      (PrevClosure (p_current props) (goto_c hs props)) (p_current props, goto_c hs props))"

text \<open>
  Every retained cell holds a closure made by a render whose dependencies were the ones
  recorded with it. For \<open>nextStep\<close> the dependency is \<open>steps.length\<close>, so the retained
  closure may hold another array of that length.
\<close>

definition hooks_ok :: "'f hooks \<Rightarrow> bool" where
  "hooks_ok hs \<longleftrightarrow>
     (\<forall>a b f c. hook_handleStepClick hs = Some ((a, b, f), c) \<longrightarrow> c = ClickClosure a b f) \<and>
     (\<forall>s f c. hook_goToStep hs = Some ((s, f), c) \<longrightarrow> c = GotoClosure s f) \<and>
     (\<forall>cur n g c. hook_nextStep hs = Some ((cur, n, g), c) \<longrightarrow>
        (\<exists>s. int (length s) = n \<and> c = NextClosure cur s g)) \<and>
     (\<forall>cur g c. hook_previousStep hs = Some ((cur, g), c) \<longrightarrow> c = PrevClosure cur g) \<and>
     (\<forall>g n p h. hook_handle hs = Some ((g, n, p), h) \<longrightarrow>
        h = \<lparr>ref_goToStep = g, ref_nextStep = n, ref_previousStep = p\<rparr>)"


section \<open>Example inputs\<close>

text \<open>Three enabled steps without overrides, and a host that listens for changes.\<close>

definition demo_step :: "string \<Rightarrow> StepData" where
  "demo_step k = \<lparr>key = k, title = k, description = None, status = None, disabled = None,
     icon = NUndefined\<rparr>"

definition demo_props :: "int \<Rightarrow> string DynStepperProps" where
  "demo_props c = \<lparr>p_current = c,
     p_steps = [demo_step ''A'', demo_step ''B'', demo_step ''C''],
     p_orientation = None, p_size = None, p_onChange = Some ''onChange'',
     p_showNumbers = None, p_showConnectors = None, p_clickable = None,
     p_className = None, p_data_testid = None\<rparr>"


text \<open>No steps at all.\<close>

definition demo_empty :: "string DynStepperProps" where
  "demo_empty = \<lparr>p_current = 0, p_steps = [],
     p_orientation = None, p_size = None, p_onChange = Some ''onChange'',
     p_showNumbers = None, p_showConnectors = None, p_clickable = None,
     p_className = None, p_data_testid = None\<rparr>"

text \<open>
  Four steps with \<open>current = 2\<close>: an explicit error with an icon, a completed step with an
  icon, the current step with an icon, a pending step without one.
\<close>

definition demo_icons :: "bool option \<Rightarrow> string DynStepperProps" where
  "demo_icons numbers = \<lparr>p_current = 2,
     p_steps = [
       (demo_step ''A'')\<lparr>status := Some Error, icon := NElement ''star''\<rparr>,
       (demo_step ''B'')\<lparr>icon := NElement ''star''\<rparr>,
       (demo_step ''C'')\<lparr>icon := NElement ''star''\<rparr>,
       demo_step ''D''],
     p_orientation = None, p_size = None, p_onChange = None,
     p_showNumbers = numbers, p_showConnectors = None, p_clickable = None,
     p_className = None, p_data_testid = None\<rparr>"

text \<open>
  A menu item labelled Save, with the divider flag, the disabled flag and the callback
  left open.
\<close>

definition demo_item ::
  "bool option \<Rightarrow> bool option \<Rightarrow> string option \<Rightarrow> string DynMenuItemProps" where
  "demo_item dv dis cb = \<lparr>m_children = NString ''Save'', m_value = Some ''save'',
     m_onClick = cb, m_disabled = dis, m_selected = None, m_icon = NUndefined,
     m_description = None, m_shortcut = None, m_divider = dv, m_className = None,
     m_data_testid = None\<rparr>"

section \<open>Properties of a render\<close>

lemma opt_member_Inr: "opt_member x f = Inr (map_option f x)"
  by (cases x) simp_all

lemma hooks_ok_mount: "hooks_ok mount_hooks"
  by (simp add: hooks_ok_def mount_hooks_def)

lemma DynStepper_total: "\<exists>v hs'. DynStepper hs props = Inr (v, hs')"
  unfolding DynStepper_def Let_def case_prod_beta opt_member_Inr by simp

lemma DynStepper_track:
  "DynStepper hs props = Inr (v, hs') \<Longrightarrow>
   v_track v = map (\<lambda>(index, step).
       render_step (click_c hs props) (p_current props) (p_steps props)
         (default_to True (p_clickable props)) (default_to True (p_showNumbers props))
         (default_to True (p_showConnectors props)) step (int index))
     (enumerate 0 (p_steps props))"
  unfolding DynStepper_def Let_def case_prod_beta opt_member_Inr click_c_def
  by auto

lemma DynStepper_aria:
  "DynStepper hs props = Inr (v, hs') \<Longrightarrow>
   v_aria_valuetext v = map_option title (index_js (p_steps props) (p_current props)) \<and>
   v_aria_valuemin v = 0 \<and> v_aria_valuemax v = int (length (p_steps props)) - 1 \<and>
   v_aria_valuenow v = p_current props \<and> v_role v = ''progressbar'' \<and>
   v_data_testid v = p_data_testid props"
  unfolding DynStepper_def Let_def case_prod_beta opt_member_Inr
  by auto

lemma DynStepper_className:
  "DynStepper hs props = Inr (v, hs') \<Longrightarrow>
   v_className v = clsx [
            Cls ''dyn-stepper'',
            Cls (''dyn-stepper--'' @ Orientation_str (default_to Horizontal (p_orientation props))),
            Cls (''dyn-stepper--size-'' @ default_to ''md'' (p_size props)),
            ClsObj [(''dyn-stepper--clickable'', default_to True (p_clickable props)),
                    (''dyn-stepper--with-connectors'', default_to True (p_showConnectors props))],
            ClsOpt (p_className props)]"
  unfolding DynStepper_def Let_def case_prod_beta opt_member_Inr
  by auto

lemma DynStepper_hooks:
  "DynStepper hs props = Inr (v, hs') \<Longrightarrow>
   hook_handleStepClick hs' = snd (useCallback (hook_handleStepClick hs)
      (ClickClosure (default_to True (p_clickable props)) (p_current props) (p_onChange props))
      (default_to True (p_clickable props), p_current props, p_onChange props)) \<and>
   hook_goToStep hs' = snd (useCallback (hook_goToStep hs)
      (GotoClosure (p_steps props) (p_onChange props)) (p_steps props, p_onChange props)) \<and>
   hook_nextStep hs' = snd (useCallback (hook_nextStep hs)
      (NextClosure (p_current props) (p_steps props) (goto_c hs props))
      (p_current props, int (length (p_steps props)), goto_c hs props)) \<and>
   hook_previousStep hs' = snd (useCallback (hook_previousStep hs)
      (PrevClosure (p_current props) (goto_c hs props)) (p_current props, goto_c hs props)) \<and>
   hook_handle hs' = useImperativeHandle (hook_handle hs)
      \<lparr>ref_goToStep = goto_c hs props, ref_nextStep = next_c hs props,
       ref_previousStep = prev_c hs props\<rparr>
      (goto_c hs props, next_c hs props, prev_c hs props)"
  unfolding DynStepper_def Let_def case_prod_beta opt_member_Inr goto_c_def next_c_def prev_c_def
  by auto

lemma click_c_ok:
  "hooks_ok hs \<Longrightarrow> click_c hs props =
     ClickClosure (default_to True (p_clickable props)) (p_current props) (p_onChange props)"
  by (auto simp: hooks_ok_def click_c_def useCallback_def split: option.splits)

lemma goto_c_ok:
  "hooks_ok hs \<Longrightarrow> goto_c hs props = GotoClosure (p_steps props) (p_onChange props)"
  by (auto simp: hooks_ok_def goto_c_def useCallback_def split: option.splits)

lemma next_c_ok:
  "hooks_ok hs \<Longrightarrow> \<exists>s. length s = length (p_steps props) \<and>
     next_c hs props = NextClosure (p_current props) s (GotoClosure (p_steps props) (p_onChange props))"
  unfolding next_c_def
  by (auto simp: hooks_ok_def goto_c_ok useCallback_def split: option.splits)

lemma prev_c_ok:
  "hooks_ok hs \<Longrightarrow> prev_c hs props =
     PrevClosure (p_current props) (GotoClosure (p_steps props) (p_onChange props))"
  unfolding prev_c_def
  by (auto simp: hooks_ok_def goto_c_ok useCallback_def split: option.splits)

lemma hooks_ok_step:
  assumes ok: "hooks_ok hs" and r: "DynStepper hs props = Inr (v, hs')"
  shows "hooks_ok hs'"
proof -
  note h = DynStepper_hooks [OF r]
  have 1: "\<forall>a b f c. hook_handleStepClick hs' = Some ((a, b, f), c) \<longrightarrow> c = ClickClosure a b f"
    using ok h by (auto simp: hooks_ok_def useCallback_def split: option.splits if_splits)
  have 2: "\<forall>s f c. hook_goToStep hs' = Some ((s, f), c) \<longrightarrow> c = GotoClosure s f"
    using ok h by (auto simp: hooks_ok_def useCallback_def split: option.splits if_splits)
  have 3: "\<forall>cur n g c. hook_nextStep hs' = Some ((cur, n, g), c) \<longrightarrow>
        (\<exists>s. int (length s) = n \<and> c = NextClosure cur s g)"
    using ok h by (auto simp: hooks_ok_def useCallback_def split: option.splits if_splits)
  have 4: "\<forall>cur g c. hook_previousStep hs' = Some ((cur, g), c) \<longrightarrow> c = PrevClosure cur g"
    using ok h by (auto simp: hooks_ok_def useCallback_def split: option.splits if_splits)
  have 5: "\<forall>g n p h. hook_handle hs' = Some ((g, n, p), h) \<longrightarrow>
        h = \<lparr>ref_goToStep = g, ref_nextStep = n, ref_previousStep = p\<rparr>"
    using ok h by (auto simp: hooks_ok_def useImperativeHandle_def split: option.splits if_splits)
  show ?thesis unfolding hooks_ok_def using 1 2 3 4 5 by blast
qed

lemma mounted_hooks_ok: "mounted hs \<Longrightarrow> hooks_ok hs"
  by (induction rule: mounted.induct) (auto intro: hooks_ok_mount hooks_ok_step)

lemma ref_current_ok:
  assumes ok: "hooks_ok hs" and r: "DynStepper hs props = Inr (v, hs')"
  shows "ref_current hs' = Some \<lparr>ref_goToStep = goto_c hs props, ref_nextStep = next_c hs props,
       ref_previousStep = prev_c hs props\<rparr>"
  using ok DynStepper_hooks [OF r]
  by (auto simp: hooks_ok_def ref_current_def useImperativeHandle_def split: option.splits if_splits)

lemma track_length:
  "DynStepper hs props = Inr (v, hs') \<Longrightarrow> length (v_track v) = length (p_steps props)"
  by (simp add: DynStepper_track)

lemma track_nth:
  "DynStepper hs props = Inr (v, hs') \<Longrightarrow> i < length (p_steps props) \<Longrightarrow>
   v_track v ! i =
     render_step (click_c hs props) (p_current props) (p_steps props)
       (default_to True (p_clickable props)) (default_to True (p_showNumbers props))
       (default_to True (p_showConnectors props)) (p_steps props ! i) (int i)"
  by (simp add: DynStepper_track nth_enumerate_eq)

lemma render_step_status:
  "el_status (frag_step (render_step c cur sts cl sn sc step idx)) = getStepStatus cur idx step"
  by (simp add: render_step_def Let_def)

lemma status_token:
  "(''dyn-stepper__step--'' @ StepStatus_str (getStepStatus cur idx step))
     \<in> set (el_className (frag_step (render_step c cur sts cl sn sc step idx)))"
  by (simp add: render_step_def Let_def clsx_def)


section \<open>Status derivation\<close>

text \<open>
  C1. Every render returns a track with one entry per step, and for every valid position
  \<open>i\<close> the displayed status of step \<open>i\<close> is the step's explicit status when one is set,
  else \<open>complete\<close> if \<open>i < current\<close>, else \<open>current\<close> if \<open>i = current\<close>, else \<open>pending\<close>.
  That status is the modifier of the step's class, and \<open>error\<close> is displayed only when
  it is the explicit status. This holds whatever React retained from earlier renders.
\<close>

theorem C1_status_derivation:
  "\<exists>v hs'. DynStepper hs props = Inr (v, hs') \<and>
     length (v_track v) = length (p_steps props) \<and>
     (\<forall>i < length (p_steps props).
        el_status (frag_step (v_track v ! i)) =
          (case status (p_steps props ! i) of
             Some s \<Rightarrow> s
           | None \<Rightarrow>
               if int i < p_current props then Complete
               else if int i = p_current props then Current
               else Pending) \<and>
        (''dyn-stepper__step--'' @ StepStatus_str (el_status (frag_step (v_track v ! i))))
           \<in> set (el_className (frag_step (v_track v ! i))) \<and>
        (el_status (frag_step (v_track v ! i)) = Error \<longrightarrow>
           status (p_steps props ! i) = Some Error))"
proof -
  obtain v hs' where r: "DynStepper hs props = Inr (v, hs')"
    using DynStepper_total by blast
  have "el_status (frag_step (v_track v ! i)) = getStepStatus (p_current props) (int i) (p_steps props ! i)"
    if "i < length (p_steps props)" for i
    using that by (simp add: track_nth [OF r] render_step_status)
  moreover have "(''dyn-stepper__step--'' @ StepStatus_str (el_status (frag_step (v_track v ! i))))
           \<in> set (el_className (frag_step (v_track v ! i)))"
    if "i < length (p_steps props)" for i
    using that by (simp only: track_nth [OF r that] render_step_status status_token)
  ultimately show ?thesis
    using r track_length [OF r]
    by (auto simp: getStepStatus_def split: option.splits)
qed


theorem C1_witness:
  "\<exists>v hs'. DynStepper mount_hooks (demo_props 1) = Inr (v, hs') \<and>
     el_status (frag_step (v_track v ! 0)) = Complete \<and>
     el_status (frag_step (v_track v ! 1)) = Current \<and>
     el_status (frag_step (v_track v ! 2)) = Pending"
  using C1_status_derivation [of mount_hooks "demo_props 1"]
  by (auto simp: demo_props_def demo_step_def)

section \<open>Navigation by direct interaction\<close>

lemma render_step_click:
  "click (frag_step (render_step c cur sts cl sn sc step idx)) =
     (if cl \<and> \<not> truthy_flag (disabled step) \<and> idx \<le> cur then handleStepClick c idx step else [])"
  by (simp add: render_step_def Let_def click_def)

lemma render_step_keyDown:
  "keyDown k (frag_step (render_step c cur sts cl sn sc step idx)) =
     (if (cl \<and> \<not> truthy_flag (disabled step) \<and> idx \<le> cur) \<and> (k = ''Enter'' \<or> k = '' '')
      then (True, handleStepClick c idx step) else (False, []))"
  by (simp add: render_step_def Let_def keyDown_def)

text \<open>
  C2. In every render of a mounted component, a pointer click on the step at position \<open>i\<close>,
  and an Enter or Space key press on it, make exactly the call \<open>onChange(i, step)\<close> when
  the resolved \<open>clickable\<close> flag is true, the step's \<open>disabled\<close> is falsy and
  \<open>i \<le> current\<close>, and make no call otherwise; any other key makes no call. With a callback
  supplied, the call happens if and only if the three conditions hold, and a step with
  \<open>i > current\<close> never fires it.
\<close>

theorem C2_navigability:
  assumes m: "mounted hs"
  shows "\<exists>v hs'. DynStepper hs props = Inr (v, hs') \<and>
     (\<forall>i < length (p_steps props).
        click (frag_step (v_track v ! i)) =
          (if default_to True (p_clickable props) \<and> \<not> truthy_flag (disabled (p_steps props ! i))
              \<and> int i \<le> p_current props
           then invoke (p_onChange props) (int i) (p_steps props ! i) else []) \<and>
        (\<forall>k. keyDown k (frag_step (v_track v ! i)) =
          (if (default_to True (p_clickable props) \<and> \<not> truthy_flag (disabled (p_steps props ! i))
              \<and> int i \<le> p_current props) \<and> (k = ''Enter'' \<or> k = '' '')
           then (True, invoke (p_onChange props) (int i) (p_steps props ! i)) else (False, []))) \<and>
        (\<forall>f. p_onChange props = Some f \<longrightarrow>
           (click (frag_step (v_track v ! i)) = [(f, int i, p_steps props ! i)] \<longleftrightarrow>
              default_to True (p_clickable props) \<and> \<not> truthy_flag (disabled (p_steps props ! i))
              \<and> int i \<le> p_current props)) \<and>
        (int i > p_current props \<longrightarrow>
           click (frag_step (v_track v ! i)) = [] \<and>
           (\<forall>k. snd (keyDown k (frag_step (v_track v ! i))) = [])))"
proof -
  obtain v hs' where r: "DynStepper hs props = Inr (v, hs')"
    using DynStepper_total by blast
  have c: "click_c hs props =
     ClickClosure (default_to True (p_clickable props)) (p_current props) (p_onChange props)"
    using m by (simp add: mounted_hooks_ok click_c_ok)
  have "\<forall>i < length (p_steps props). v_track v ! i =
     render_step (ClickClosure (default_to True (p_clickable props)) (p_current props) (p_onChange props))
       (p_current props) (p_steps props)
       (default_to True (p_clickable props)) (default_to True (p_showNumbers props))
       (default_to True (p_showConnectors props)) (p_steps props ! i) (int i)"
    using track_nth [OF r] c by simp
  then show ?thesis using r
    by (auto simp: render_step_click render_step_keyDown)
qed

theorem C2_witness:
  "\<exists>v1 hs1. DynStepper mount_hooks (demo_props 0) = Inr (v1, hs1) \<and>
     (\<exists>v hs'. DynStepper hs1 (demo_props 1) = Inr (v, hs') \<and>
        click (frag_step (v_track v ! 0)) = [(''onChange'', 0, demo_step ''A'')] \<and>
        keyDown ''Enter'' (frag_step (v_track v ! 1)) = (True, [(''onChange'', 1, demo_step ''B'')]) \<and>
        keyDown ''Tab'' (frag_step (v_track v ! 1)) = (False, []) \<and>
        click (frag_step (v_track v ! 2)) = [])"
proof -
  obtain v1 hs1 where r1: "DynStepper mount_hooks (demo_props 0) = Inr (v1, hs1)"
    using DynStepper_total by blast
  have m: "mounted hs1"
    using first_render r1 by (rule next_render)
  show ?thesis
    using r1 C2_navigability [OF m, of "demo_props 1"]
    by (auto simp: demo_props_def demo_step_def)
qed

section \<open>The imperative handle\<close>






text \<open>
  C4. The handle's \<open>nextStep()\<close> is \<open>goToStep(current + 1)\<close> when
  \<open>current < length - 1\<close> and does nothing otherwise; \<open>previousStep()\<close> is
  \<open>goToStep(current - 1)\<close> when \<open>current > 0\<close> and does nothing otherwise, where
  \<open>goToStep\<close> is the one of this render's steps and callback. At \<open>current = length - 1\<close>
  \<open>nextStep()\<close> makes no call, and at \<open>current = 0\<close> \<open>previousStep()\<close> makes none.
\<close>

theorem C4_next_previous:
  assumes m: "mounted hs"
  shows "\<exists>v hs' h. DynStepper hs props = Inr (v, hs') \<and> ref_current hs' = Some h \<and>
     ref_goToStep h = GotoClosure (p_steps props) (p_onChange props) \<and>
     nextStep (ref_nextStep h) =
       (if p_current props < int (length (p_steps props)) - 1
        then goToStep (ref_goToStep h) (Num (of_int (p_current props + 1))) else Inr []) \<and>
     previousStep (ref_previousStep h) =
       (if p_current props > 0
        then goToStep (ref_goToStep h) (Num (of_int (p_current props - 1))) else Inr []) \<and>
     (p_current props = int (length (p_steps props)) - 1 \<longrightarrow> nextStep (ref_nextStep h) = Inr []) \<and>
     (p_current props = 0 \<longrightarrow> previousStep (ref_previousStep h) = Inr [])"
proof -
  obtain v hs' where r: "DynStepper hs props = Inr (v, hs')"
    using DynStepper_total by blast
  have ok: "hooks_ok hs" using m by (rule mounted_hooks_ok)
  obtain s where s: "length s = length (p_steps props)"
      "next_c hs props = NextClosure (p_current props) s (GotoClosure (p_steps props) (p_onChange props))"
    using next_c_ok [OF ok] by blast
  have "ref_current hs' = Some \<lparr>ref_goToStep = goto_c hs props, ref_nextStep = next_c hs props,
       ref_previousStep = prev_c hs props\<rparr>"
    using ok r by (rule ref_current_ok)
  then show ?thesis
    using r s by (simp add: goto_c_ok [OF ok] prev_c_ok [OF ok] del: goToStep.simps)
qed

theorem C4_witness:
  "\<exists>v1 hs1. DynStepper mount_hooks (demo_props 2) = Inr (v1, hs1) \<and>
     (\<exists>v hs' h. DynStepper hs1 (demo_props 0) = Inr (v, hs') \<and> ref_current hs' = Some h \<and>
        nextStep (ref_nextStep h) = Inr [(''onChange'', 1, demo_step ''B'')] \<and>
        previousStep (ref_previousStep h) = Inr []) \<and>
     (\<exists>h1. ref_current hs1 = Some h1 \<and>
        nextStep (ref_nextStep h1) = Inr [] \<and>
        previousStep (ref_previousStep h1) = Inr [(''onChange'', 1, demo_step ''B'')])"
proof -
  obtain v1 hs1 where r1: "DynStepper mount_hooks (demo_props 2) = Inr (v1, hs1)"
    using DynStepper_total by blast
  have m: "mounted hs1"
    using first_render r1 by (rule next_render)
  show ?thesis
    using r1 C4_next_previous [OF m, of "demo_props 0"]
      C4_next_previous [OF first_render, of "demo_props 2"]
    by (auto simp: demo_props_def demo_step_def index_num_def index_js_def js_ge_def js_lt_def)
qed

section \<open>Out-of-range indices and the empty sequence\<close>

text \<open>
  C5. For every step sequence, every integer \<open>current\<close> and every retained hook state, the
  render returns markup and raises nothing. An empty sequence gives an empty track. When
  \<open>current\<close> is negative or at least the length, the active-step title lookup yields
  nothing, and no step is displayed as \<open>current\<close> unless its explicit status says so.
\<close>

theorem C5_render_total:
  "\<exists>v hs'. DynStepper hs props = Inr (v, hs') \<and>
     (p_steps props = [] \<longrightarrow> v_track v = []) \<and>
     (p_current props < 0 \<or> p_current props \<ge> int (length (p_steps props)) \<longrightarrow>
        v_aria_valuetext v = None \<and>
        (\<forall>i < length (p_steps props).
           status (p_steps props ! i) \<noteq> Some Current \<longrightarrow>
           el_status (frag_step (v_track v ! i)) \<noteq> Current))"
proof -
  obtain v hs' where r: "DynStepper hs props = Inr (v, hs')"
    using DynStepper_total by blast
  have "v_track v = []" if "p_steps props = []"
    using track_length [OF r] that by simp
  moreover have "v_aria_valuetext v = None"
    if "p_current props < 0 \<or> p_current props \<ge> int (length (p_steps props))"
    using DynStepper_aria [OF r] that by (auto simp: index_js_def)
  moreover have "el_status (frag_step (v_track v ! i)) \<noteq> Current"
    if "p_current props < 0 \<or> p_current props \<ge> int (length (p_steps props))"
      and "i < length (p_steps props)" and "status (p_steps props ! i) \<noteq> Some Current" for i
    using that by (auto simp: track_nth [OF r] render_step_status getStepStatus_def split: option.splits)
  ultimately show ?thesis using r by blast
qed

theorem C5_witness:
  "(\<exists>v hs'. DynStepper mount_hooks (demo_props 3) = Inr (v, hs') \<and>
      v_aria_valuetext v = None \<and>
      el_status (frag_step (v_track v ! 0)) \<noteq> Current \<and>
      el_status (frag_step (v_track v ! 2)) \<noteq> Current) \<and>
   (\<exists>v hs'. DynStepper mount_hooks (demo_props (- 1)) = Inr (v, hs') \<and>
      v_aria_valuetext v = None \<and>
      el_status (frag_step (v_track v ! 1)) \<noteq> Current) \<and>
   (\<exists>v hs'. DynStepper mount_hooks demo_empty = Inr (v, hs') \<and> v_track v = [])"
  using C5_render_total [of mount_hooks "demo_props 3"]
    C5_render_total [of mount_hooks "demo_props (- 1)"]
    C5_render_total [of mount_hooks demo_empty]
  by (auto simp: demo_props_def demo_step_def demo_empty_def)

section \<open>Indicator and connectors\<close>

lemma render_step_indicator:
  "el_indicator (frag_step (render_step c cur sts cl sn sc step idx)) =
     (if getStepStatus cur idx step = Error then DynIcon ''x'' ''sm''
      else if getStepStatus cur idx step = Complete then DynIcon ''check'' ''sm''
      else if truthy_node (icon step) then CustomIcon (icon step)
      else if sn then NumberSpan (idx + 1)
      else DotDiv)"
  by (simp add: render_step_def Let_def)

lemma render_step_connector:
  "frag_connector (render_step c cur sts cl sn sc step idx) =
     (if sc \<and> idx < int (length sts) - 1 then
        Some (''dyn-stepper__connector'' #
              (if idx < cur then [''dyn-stepper__connector--completed''] else []))
      else None)"
  by (simp add: render_step_def Let_def clsx_def)

text \<open>
  C6. For every step, with the displayed status being \<open>getStepStatus(index, step)\<close>, the
  indicator is the error glyph when that status is \<open>error\<close>; else the complete glyph when
  it is \<open>complete\<close>, whatever the icon; else the step's icon when it is there (truthy, as
  the source tests it); else the ordinal \<open>index + 1\<close> when \<open>showNumbers\<close> is true; else
  the empty dot.
\<close>

theorem C6_indicator_priority:
  "\<exists>v hs'. DynStepper hs props = Inr (v, hs') \<and>
     (\<forall>i < length (p_steps props).
        el_status (frag_step (v_track v ! i)) =
          getStepStatus (p_current props) (int i) (p_steps props ! i) \<and>
        el_indicator (frag_step (v_track v ! i)) =
          (if el_status (frag_step (v_track v ! i)) = Error then DynIcon ''x'' ''sm''
           else if el_status (frag_step (v_track v ! i)) = Complete then DynIcon ''check'' ''sm''
           else if truthy_node (icon (p_steps props ! i)) then CustomIcon (icon (p_steps props ! i))
           else if default_to True (p_showNumbers props) then NumberSpan (int i + 1)
           else DotDiv))"
proof -
  obtain v hs' where r: "DynStepper hs props = Inr (v, hs')"
    using DynStepper_total by blast
  show ?thesis
    using r by (simp add: track_nth [OF r] render_step_status render_step_indicator)
qed

theorem C6_witness:
  "(\<exists>v hs'. DynStepper mount_hooks (demo_icons None) = Inr (v, hs') \<and>
      el_indicator (frag_step (v_track v ! 0)) = DynIcon ''x'' ''sm'' \<and>
      el_indicator (frag_step (v_track v ! 1)) = DynIcon ''check'' ''sm'' \<and>
      el_indicator (frag_step (v_track v ! 2)) = CustomIcon (NElement ''star'') \<and>
      el_indicator (frag_step (v_track v ! 3)) = NumberSpan 4) \<and>
   (\<exists>v hs'. DynStepper mount_hooks (demo_icons (Some False)) = Inr (v, hs') \<and>
      el_indicator (frag_step (v_track v ! 3)) = DotDiv)"
  using C6_indicator_priority [of mount_hooks "demo_icons None"]
    C6_indicator_priority [of mount_hooks "demo_icons (Some False)"]
  by (auto simp: demo_icons_def demo_step_def getStepStatus_def)

text \<open>
  C7. With connectors enabled, every step that has a successor is followed by a connector,
  and that connector carries the \<open>completed\<close> class if and only if the step's index is
  below \<open>current\<close>. The last step has no connector, and with connectors disabled no
  step has one.
\<close>

theorem C7_connectors:
  "\<exists>v hs'. DynStepper hs props = Inr (v, hs') \<and>
     (default_to True (p_showConnectors props) \<longrightarrow>
        (\<forall>i. Suc i < length (p_steps props) \<longrightarrow>
           (\<exists>c. frag_connector (v_track v ! i) = Some c \<and>
                ''dyn-stepper__connector'' \<in> set c \<and>
                (''dyn-stepper__connector--completed'' \<in> set c \<longleftrightarrow> int i < p_current props)))) \<and>
     (\<forall>i. Suc i = length (p_steps props) \<longrightarrow> frag_connector (v_track v ! i) = None) \<and>
     (\<not> default_to True (p_showConnectors props) \<longrightarrow>
        (\<forall>i < length (p_steps props). frag_connector (v_track v ! i) = None))"
proof -
  obtain v hs' where r: "DynStepper hs props = Inr (v, hs')"
    using DynStepper_total by blast
  have "frag_connector (v_track v ! i) =
     (if default_to True (p_showConnectors props) \<and> int i < int (length (p_steps props)) - 1 then
        Some (''dyn-stepper__connector'' #
              (if int i < p_current props then [''dyn-stepper__connector--completed''] else []))
      else None)" if "i < length (p_steps props)" for i
    using that by (simp only: track_nth [OF r that] render_step_connector)
  then show ?thesis using r by auto
qed

theorem C7_witness:
  "\<exists>v hs'. DynStepper mount_hooks (demo_props 1) = Inr (v, hs') \<and>
     (\<exists>c. frag_connector (v_track v ! 0) = Some c \<and>
          ''dyn-stepper__connector--completed'' \<in> set c) \<and>
     (\<exists>c. frag_connector (v_track v ! 1) = Some c \<and>
          ''dyn-stepper__connector--completed'' \<notin> set c) \<and>
     frag_connector (v_track v ! 2) = None"
proof -
  obtain v hs' where r: "DynStepper mount_hooks (demo_props 1) = Inr (v, hs')"
    and a: "\<forall>i. Suc i < length (p_steps (demo_props 1)) \<longrightarrow>
           (\<exists>c. frag_connector (v_track v ! i) = Some c \<and>
                ''dyn-stepper__connector'' \<in> set c \<and>
                (''dyn-stepper__connector--completed'' \<in> set c \<longleftrightarrow> int i < p_current (demo_props 1)))"
    and b: "\<forall>i. Suc i = length (p_steps (demo_props 1)) \<longrightarrow> frag_connector (v_track v ! i) = None"
    using C7_connectors [of mount_hooks "demo_props 1"] by (auto simp: demo_props_def)
  have "\<exists>c. frag_connector (v_track v ! 0) = Some c \<and>
          ''dyn-stepper__connector--completed'' \<in> set c"
    using a [rule_format, of 0] by (auto simp: demo_props_def)
  moreover have "\<exists>c. frag_connector (v_track v ! 1) = Some c \<and>
          ''dyn-stepper__connector--completed'' \<notin> set c"
    using a [rule_format, of 1] by (auto simp: demo_props_def)
  moreover have "frag_connector (v_track v ! 2) = None"
    using b [rule_format, of 2] by (simp add: demo_props_def)
  ultimately show ?thesis using r by blast
qed

text \<open>
  C10. The two out-of-range directions differ. When \<open>current\<close> is at least the length,
  every step without an explicit status is displayed \<open>complete\<close> and every rendered
  connector is completed; when \<open>current\<close> is negative, every such step is displayed
  \<open>pending\<close> and no rendered connector is completed.
\<close>

theorem C10_out_of_range_directions:
  "\<exists>v hs'. DynStepper hs props = Inr (v, hs') \<and>
     (p_current props \<ge> int (length (p_steps props)) \<longrightarrow>
        (\<forall>i < length (p_steps props).
           (status (p_steps props ! i) = None \<longrightarrow>
              el_status (frag_step (v_track v ! i)) = Complete) \<and>
           (\<forall>c. frag_connector (v_track v ! i) = Some c \<longrightarrow>
              ''dyn-stepper__connector--completed'' \<in> set c))) \<and>
     (p_current props < 0 \<longrightarrow>
        (\<forall>i < length (p_steps props).
           (status (p_steps props ! i) = None \<longrightarrow>
              el_status (frag_step (v_track v ! i)) = Pending) \<and>
           (\<forall>c. frag_connector (v_track v ! i) = Some c \<longrightarrow>
              ''dyn-stepper__connector--completed'' \<notin> set c)))"
proof -
  obtain v hs' where r: "DynStepper hs props = Inr (v, hs')"
    using DynStepper_total by blast
  have n: "v_track v ! i =
     render_step (click_c hs props) (p_current props) (p_steps props)
       (default_to True (p_clickable props)) (default_to True (p_showNumbers props))
       (default_to True (p_showConnectors props)) (p_steps props ! i) (int i)"
    if "i < length (p_steps props)" for i
    using that by (rule track_nth [OF r])
  show ?thesis using r
    by (auto simp: n render_step_status render_step_connector getStepStatus_def split: if_splits)
qed

theorem C10_witness:
  "(\<exists>v hs'. DynStepper mount_hooks (demo_props 5) = Inr (v, hs') \<and>
      el_status (frag_step (v_track v ! 0)) = Complete \<and>
      el_status (frag_step (v_track v ! 2)) = Complete \<and>
      (\<forall>c. frag_connector (v_track v ! 1) = Some c \<longrightarrow>
         ''dyn-stepper__connector--completed'' \<in> set c)) \<and>
   (\<exists>v hs'. DynStepper mount_hooks (demo_props (- 2)) = Inr (v, hs') \<and>
      el_status (frag_step (v_track v ! 0)) = Pending \<and>
      el_status (frag_step (v_track v ! 2)) = Pending)"
proof -
  obtain v hs' where r: "DynStepper mount_hooks (demo_props 5) = Inr (v, hs')"
    and a: "\<forall>i < length (p_steps (demo_props 5)).
           (status (p_steps (demo_props 5) ! i) = None \<longrightarrow>
              el_status (frag_step (v_track v ! i)) = Complete) \<and>
           (\<forall>c. frag_connector (v_track v ! i) = Some c \<longrightarrow>
              ''dyn-stepper__connector--completed'' \<in> set c)"
    using C10_out_of_range_directions [of mount_hooks "demo_props 5"]
    by (auto simp: demo_props_def)
  obtain w hs'' where r': "DynStepper mount_hooks (demo_props (- 2)) = Inr (w, hs'')"
    and b: "\<forall>i < length (p_steps (demo_props (- 2))).
           (status (p_steps (demo_props (- 2)) ! i) = None \<longrightarrow>
              el_status (frag_step (v_track w ! i)) = Pending) \<and>
           (\<forall>c. frag_connector (v_track w ! i) = Some c \<longrightarrow>
              ''dyn-stepper__connector--completed'' \<notin> set c)"
    using C10_out_of_range_directions [of mount_hooks "demo_props (- 2)"]
    by (auto simp: demo_props_def)
  have "el_status (frag_step (v_track v ! 0)) = Complete"
    using a [rule_format, of 0] by (simp add: demo_props_def demo_step_def)
  moreover have "el_status (frag_step (v_track v ! 2)) = Complete"
    using a [rule_format, of 2] by (simp add: demo_props_def demo_step_def)
  moreover have "\<forall>c. frag_connector (v_track v ! 1) = Some c \<longrightarrow>
         ''dyn-stepper__connector--completed'' \<in> set c"
    using a [rule_format, of 1] by (simp add: demo_props_def demo_step_def)
  moreover have "el_status (frag_step (v_track w ! 0)) = Pending"
    using b [rule_format, of 0] by (simp add: demo_props_def demo_step_def)
  moreover have "el_status (frag_step (v_track w ! 2)) = Pending"
    using b [rule_format, of 2] by (simp add: demo_props_def demo_step_def)
  ultimately show ?thesis using r r' by blast
qed

section \<open>DynMenuItem: activation\<close>

lemma handleClick_eq:
  "handleClick props =
     Inr (if \<not> default_to False (m_disabled props)
          then (case m_onClick props of Some f \<Rightarrow> [(f, m_value props)] | None \<Rightarrow> [])
          else [])"
  by (cases "m_onClick props") (simp_all add: handleClick_def Let_def)

text \<open>
  C8. For every combination of properties, a click on the rendered menu item, and Enter
  or Space on it, raise nothing and make exactly the call \<open>onClick(value)\<close> if and only
  if \<open>divider\<close> is false, \<open>disabled\<close> is false and a callback is supplied; they make no
  call otherwise. With \<open>divider\<close> the render is a separator without handlers, whatever
  \<open>onClick\<close> is; otherwise it is a \<open>menuitem\<close> button whose \<open>disabled\<close> attribute is the
  flag.
\<close>

theorem C8_menu_activation:
  "menu_click (DynMenuItem props) =
     Inr (if \<not> default_to False (m_divider props) \<and> \<not> default_to False (m_disabled props)
          then (case m_onClick props of Some f \<Rightarrow> [(f, m_value props)] | None \<Rightarrow> [])
          else []) \<and>
   (\<forall>k. menu_keyDown k (DynMenuItem props) =
     (if \<not> default_to False (m_divider props) \<and> (k = ''Enter'' \<or> k = '' '')
      then (True,
            Inr (if \<not> default_to False (m_disabled props)
                 then (case m_onClick props of Some f \<Rightarrow> [(f, m_value props)] | None \<Rightarrow> [])
                 else []))
      else (False, Inr []))) \<and>
   (\<forall>f. (menu_click (DynMenuItem props) = Inr [(f, m_value props)] \<longleftrightarrow>
           \<not> default_to False (m_divider props) \<and> \<not> default_to False (m_disabled props) \<and>
           m_onClick props = Some f) \<and>
        (\<forall>k. k = ''Enter'' \<or> k = '' '' \<longrightarrow>
           (snd (menu_keyDown k (DynMenuItem props)) = Inr [(f, m_value props)] \<longleftrightarrow>
            \<not> default_to False (m_divider props) \<and> \<not> default_to False (m_disabled props) \<and>
            m_onClick props = Some f))) \<and>
   (default_to False (m_divider props) \<longrightarrow>
      (\<exists>d. DynMenuItem props = DividerDiv d \<and> d_role d = ''separator'') \<and>
      menu_click (DynMenuItem props) = Inr [] \<and>
      (\<forall>k. menu_keyDown k (DynMenuItem props) = (False, Inr []))) \<and>
   (\<not> default_to False (m_divider props) \<longrightarrow>
      (\<exists>b. DynMenuItem props = Button b \<and> b_role b = ''menuitem'' \<and>
           b_disabled b = default_to False (m_disabled props)))"
  by (auto simp: DynMenuItem_def Let_def menu_click_def menu_keyDown_def handleKeyDown_def
      handleClick_eq split: option.splits)

theorem C8_witness:
  "menu_click (DynMenuItem (demo_item None None (Some ''f''))) = Inr [(''f'', Some ''save'')] \<and>
   menu_keyDown '' '' (DynMenuItem (demo_item None None (Some ''f''))) =
     (True, Inr [(''f'', Some ''save'')]) \<and>
   menu_click (DynMenuItem (demo_item (Some True) None (Some ''f''))) = Inr [] \<and>
   menu_click (DynMenuItem (demo_item None (Some True) (Some ''f''))) = Inr [] \<and>
   snd (menu_keyDown ''Enter'' (DynMenuItem (demo_item None (Some True) (Some ''f'')))) = Inr [] \<and>
   menu_click (DynMenuItem (demo_item None None None)) = Inr []"
  using C8_menu_activation [of "demo_item None None (Some ''f'')"]
    C8_menu_activation [of "demo_item (Some True) None (Some ''f'')"]
    C8_menu_activation [of "demo_item None (Some True) (Some ''f'')"]
    C8_menu_activation [of "demo_item None None None"]
  by (simp add: demo_item_def)

section \<open>Rendering twice\<close>

lemma useCallback_again:
  "useCallback (snd (useCallback cell fn deps)) fn' deps = useCallback cell fn deps"
  by (auto simp: useCallback_def split: option.splits)

lemma useImperativeHandle_again:
  "useImperativeHandle (useImperativeHandle cell obj deps) obj' deps =
     useImperativeHandle cell obj deps"
  by (auto simp: useImperativeHandle_def split: option.splits)

lemma click_c_again:
  "DynStepper hs props = Inr (v, hs') \<Longrightarrow> click_c hs' props = click_c hs props"
  by (simp add: click_c_def DynStepper_hooks useCallback_again)

lemma goto_c_again:
  "DynStepper hs props = Inr (v, hs') \<Longrightarrow> goto_c hs' props = goto_c hs props"
  by (simp add: goto_c_def DynStepper_hooks useCallback_again)

lemma next_c_again:
  "DynStepper hs props = Inr (v, hs') \<Longrightarrow> next_c hs' props = next_c hs props"
  by (simp add: next_c_def goto_c_again DynStepper_hooks useCallback_again)

lemma prev_c_again:
  "DynStepper hs props = Inr (v, hs') \<Longrightarrow> prev_c hs' props = prev_c hs props"
  by (simp add: prev_c_def goto_c_again DynStepper_hooks useCallback_again)

lemma view_eqI:
  assumes "DynStepper hs props = Inr (v, hs')" and "DynStepper hs2 props = Inr (v2, hs2')"
    and "click_c hs2 props = click_c hs props"
  shows "v2 = v"
  using DynStepper_track [OF assms(1)] DynStepper_track [OF assms(2)]
    DynStepper_aria [OF assms(1)] DynStepper_aria [OF assms(2)]
    DynStepper_className [OF assms(1)] DynStepper_className [OF assms(2)] assms(3)
  by (intro stepper_view.equality) simp_all

lemma hooks_again:
  assumes r: "DynStepper hs props = Inr (v, hs')" and r2: "DynStepper hs' props = Inr (v2, hs2)"
  shows "hs2 = hs'"
proof (rule hooks.equality)
  note h = DynStepper_hooks [OF r] and h2 = DynStepper_hooks [OF r2]
  show "hook_handleStepClick hs2 = hook_handleStepClick hs'"
    using h h2 by (simp add: useCallback_again)
  show "hook_goToStep hs2 = hook_goToStep hs'"
    using h h2 by (simp add: useCallback_again)
  show "hook_nextStep hs2 = hook_nextStep hs'"
    using h h2 by (simp add: goto_c_again [OF r] useCallback_again)
  show "hook_previousStep hs2 = hook_previousStep hs'"
    using h h2 by (simp add: goto_c_again [OF r] useCallback_again)
  show "hook_handle hs2 = hook_handle hs'"
    using h h2
    by (simp add: goto_c_again [OF r] next_c_again [OF r] prev_c_again [OF r]
        useImperativeHandle_again)
  show "hooks.more hs2 = hooks.more hs'" by simp
qed

lemma step_attrs_render_step:
  "step_attrs (render_step c cur sts cl sn sc step idx) =
   step_attrs (render_step c' cur sts cl sn sc step idx)"
  by (simp add: step_attrs_def render_step_def Let_def)

lemma view_attrs_eq:
  assumes "DynStepper hs props = Inr (v, hs')" and "DynStepper hs2 props = Inr (v2, hs2')"
  shows "view_attrs v2 = view_attrs v"
proof -
  have "map step_attrs (v_track v2) = map step_attrs (v_track v)"
    unfolding DynStepper_track [OF assms(1)] DynStepper_track [OF assms(2)] map_map
    by (rule map_cong) (auto simp: step_attrs_render_step [of "click_c hs2 props" _ _ _ _ _ _ _ "click_c hs props"])
  then show ?thesis
    using DynStepper_aria [OF assms(1)] DynStepper_aria [OF assms(2)]
      DynStepper_className [OF assms(1)] DynStepper_className [OF assms(2)]
    by (simp add: view_attrs_def)
qed

text \<open>
  C9. Rendering is deterministic. Rendering \<open>DynStepper\<close> a second time with the same
  properties returns the same markup, handlers included, and leaves what React retains
  unchanged. From any other retained state the same properties give the same output
  attributes (statuses, ARIA values, class names), and between two states of mounted
  components the same markup altogether: the retained \<open>useCallback\<close> cells never show in
  the output. \<open>DynMenuItem\<close> calls no hook, so its render is the function \<open>DynMenuItem\<close> of
  the properties and equal properties give equal output.
\<close>

theorem C9_render_deterministic:
  "\<exists>v hs1. DynStepper hs props = Inr (v, hs1) \<and>
     DynStepper hs1 props = Inr (v, hs1) \<and>
     (\<forall>hs2. \<exists>v2 hs2'. DynStepper hs2 props = Inr (v2, hs2') \<and>
        view_attrs v2 = view_attrs v \<and>
        (mounted hs \<and> mounted hs2 \<longrightarrow> v2 = v)) \<and>
     (\<forall>item2. item2 = item \<longrightarrow> DynMenuItem item2 = DynMenuItem item)"
proof -
  obtain v hs1 where r: "DynStepper hs props = Inr (v, hs1)"
    using DynStepper_total by blast
  obtain w hs1' where r1: "DynStepper hs1 props = Inr (w, hs1')"
    using DynStepper_total by blast
  have "w = v" using r r1 click_c_again [OF r] by (rule view_eqI)
  moreover have "hs1' = hs1" using r r1 by (rule hooks_again)
  ultimately have again: "DynStepper hs1 props = Inr (v, hs1)" using r1 by simp
  have "\<exists>v2 hs2'. DynStepper hs2 props = Inr (v2, hs2') \<and>
        view_attrs v2 = view_attrs v \<and> (mounted hs \<and> mounted hs2 \<longrightarrow> v2 = v)" for hs2
  proof -
    obtain v2 hs2' where r2: "DynStepper hs2 props = Inr (v2, hs2')"
      using DynStepper_total by blast
    have "view_attrs v2 = view_attrs v" using r r2 by (rule view_attrs_eq)
    moreover have "v2 = v" if "mounted hs" and "mounted hs2"
    proof -
      have "click_c hs2 props = click_c hs props"
        using that by (simp add: mounted_hooks_ok click_c_ok)
      with r r2 show ?thesis by (rule view_eqI)
    qed
    ultimately show ?thesis using r2 by blast
  qed
  then show ?thesis using r again by blast
qed

theorem C9_witness:
  "\<exists>v hs1. DynStepper mount_hooks (demo_props 1) = Inr (v, hs1) \<and>
     DynStepper hs1 (demo_props 1) = Inr (v, hs1) \<and>
     (\<exists>v2 hs2'. DynStepper mount_hooks (demo_props 1) = Inr (v2, hs2') \<and>
        view_attrs v2 = view_attrs v \<and> v2 = v) \<and>
     DynMenuItem (demo_item None None (Some ''f'')) = DynMenuItem (demo_item None None (Some ''f''))"
  using C9_render_deterministic [of mount_hooks "demo_props 1" "demo_item None None (Some ''f'')"]
    first_render [where ?'f = string]
  by blast

end
